theory Spec2Isabelle
  imports Main "HOL-Library.Word" "HOL-Library.Multiset"
begin

section \<open>Data model of the PsycheScore contract\<close>

text \<open>
  The contract is \<^verbatim>\<open>contracts/psychescore.compact\<close> as given in
  \<^verbatim>\<open>psychescore/docs/MIDNIGHT_NETWORK_MIGRATION_PLAN.md\<close> (lines 70-128 and 132-142),
  together with \<^verbatim>\<open>calculateCommitment\<close> of
  \<^verbatim>\<open>psychescore-mn/src/utils/generateProof.js\<close>.

  A \<^verbatim>\<open>Field\<close> value is an element of a prime field: an integer in \<open>[0, p)\<close>, with addition
  and multiplication modulo \<open>p\<close> and comparison of the representatives. The contract does
  not name the prime, so every circuit takes the modulus \<open>p\<close> as its first argument.
  An \<^verbatim>\<open>Opaque<"uint32">\<close> is a 32-bit word. An \<^verbatim>\<open>Opaque<"bytes32">\<close> is only ever compared
  for equality with a Field value and stored, so it is represented by the integer it is
  compared with. An \<^verbatim>\<open>Address\<close> is a string, as in the repository's tests.
\<close>

type_synonym field = int
type_synonym address = string
type_synonym uint32 = "32 word"
type_synonym bytes32 = int
type_synonym bytes64 = "512 word"
type_synonym bytes = "8 word list"

definition is_field :: "int \<Rightarrow> field \<Rightarrow> bool" where
  "is_field p x \<longleftrightarrow> 0 \<le> x \<and> x < p"

definition fadd :: "int \<Rightarrow> field \<Rightarrow> field \<Rightarrow> field" where
  "fadd p x y = (x + y) mod p"

definition fmul :: "int \<Rightarrow> field \<Rightarrow> field \<Rightarrow> field" where
  "fmul p x y = (x * y) mod p"

text \<open>The four ledger declarations (lines 77-80).\<close>

record ledger =
  user_scores :: "address \<rightharpoonup> uint32"
  score_commitments :: "address \<rightharpoonup> bytes32"
  ml_model_hash :: bytes32
  survey_responses :: "address \<rightharpoonup> bytes"

text \<open>
  A failed \<^verbatim>\<open>assert\<close> aborts the circuit. The two range assertions are reported as
  \<open>RangeError\<close>, the commitment assertion as \<open>CommitmentMismatch\<close>; \<open>ShapeError\<close> is the
  rejection of an argument whose length is not the one the circuit's parameter type fixes;
  \<open>MissingKey\<close> is a ledger map lookup that fails because the key has no entry.
\<close>

datatype error = ShapeError | RangeError | CommitmentMismatch | MissingKey

section \<open>The circuits\<close>

text \<open>
  Lines 92-102: the accumulator starts at the bias; the first loop runs \<open>i\<close> over \<open>0..50\<close>,
  the second over \<open>0..4\<close>, each adding one product to the accumulator, in Field arithmetic.
\<close>

definition survey_loop :: "int \<Rightarrow> field list \<Rightarrow> field list \<Rightarrow> field \<Rightarrow> field" where
  "survey_loop p encrypted_responses ml_model_weights computed_score =
     fold (\<lambda>i acc. fadd p acc (fmul p (encrypted_responses ! i) (ml_model_weights ! i)))
       [0..<50] computed_score"

definition koios_loop :: "int \<Rightarrow> field list \<Rightarrow> field list \<Rightarrow> field \<Rightarrow> field" where
  "koios_loop p koios_features ml_model_weights computed_score =
     fold (\<lambda>i acc. fadd p acc (fmul p (koios_features ! i) (ml_model_weights ! (50 + i))))
       [0..<4] computed_score"

definition compute_score ::
  "int \<Rightarrow> field list \<Rightarrow> field list \<Rightarrow> field list \<Rightarrow> field \<Rightarrow> field" where
  "compute_score p encrypted_responses koios_features ml_model_weights ml_model_bias =
     koios_loop p koios_features ml_model_weights
       (survey_loop p encrypted_responses ml_model_weights ml_model_bias)"

text \<open>
  Lines 109-113: the commitment recomputed inside the circuit, a running Field sum from 0
  over \<open>i\<close> in \<open>0..50\<close>, and the condition the assertion of line 113 tests.
\<close>

definition calculated_commitment :: "int \<Rightarrow> field list \<Rightarrow> field" where
  "calculated_commitment p encrypted_responses =
     fold (\<lambda>i acc. fadd p acc (encrypted_responses ! i)) [0..<50] 0"

definition verify_commitment :: "int \<Rightarrow> field list \<Rightarrow> bytes32 \<Rightarrow> bool" where
  "verify_commitment p encrypted_responses response_commitment \<longleftrightarrow>
     calculated_commitment p encrypted_responses = response_commitment"

text \<open>
  \<^verbatim>\<open>computeAndStoreScore\<close> (lines 83-118), statement by statement, on an explicit ledger.
  The result pairs the outcome with the ledger as it is when the circuit stops, so that a
  write made before a failing assertion would show in the result.
\<close>

definition computeAndStoreScore ::
  "int \<Rightarrow> field list \<Rightarrow> field list \<Rightarrow> field list \<Rightarrow> field \<Rightarrow> address \<Rightarrow> bytes32 \<Rightarrow> ledger
     \<Rightarrow> (error + unit) \<times> ledger" where
  "computeAndStoreScore p encrypted_responses koios_features ml_model_weights ml_model_bias
       wallet_address response_commitment led =
     (let computed_score =
            compute_score p encrypted_responses koios_features ml_model_weights ml_model_bias
      in if \<not> computed_score \<ge> 0 then (Inl RangeError, led)
         else if \<not> computed_score \<le> 100 then (Inl RangeError, led)
         else if \<not> verify_commitment p encrypted_responses response_commitment
              then (Inl CommitmentMismatch, led)
         else
           let led1 = led\<lparr>user_scores :=
                        (user_scores led)(wallet_address \<mapsto> (word_of_int computed_score :: uint32))\<rparr>;
               led2 = led1\<lparr>score_commitments :=
                        (score_commitments led1)(wallet_address \<mapsto> response_commitment)\<rparr>
           in (Inr (), led2))"

text \<open>
  \<^verbatim>\<open>verifyScore\<close> (lines 121-127) reads \<^verbatim>\<open>user_scores[wallet_address]\<close> as an
  \<^verbatim>\<open>Opaque<"uint32">\<close> without testing membership first. What the ledger map gives for an
  address without an entry is not written in the contract, so it is an argument of the
  circuit: either the lookup fails, or it yields a value of the entry type.
\<close>

datatype missing_key = Fails | Yields uint32

definition lookup_score :: "missing_key \<Rightarrow> (address \<rightharpoonup> uint32) \<Rightarrow> address \<Rightarrow> error + uint32" where
  "lookup_score mk m wallet_address =
     (case m wallet_address of
        Some s \<Rightarrow> Inr s
      | None \<Rightarrow> (case mk of Fails \<Rightarrow> Inl MissingKey | Yields d \<Rightarrow> Inr d))"

definition verifyScore ::
  "missing_key \<Rightarrow> address \<Rightarrow> uint32 \<Rightarrow> ledger \<Rightarrow> (error + bool) \<times> ledger" where
  "verifyScore mk wallet_address expected_score led =
     (case lookup_score mk (user_scores led) wallet_address of
        Inl e \<Rightarrow> (Inl e, led)
      | Inr stored_score \<Rightarrow> (Inr (stored_score = expected_score), led))"

text \<open>
  \<^verbatim>\<open>updateMLModel\<close> (lines 134-141): the signature check is a comment only, the body is
  the assignment of the new hash.
\<close>

definition updateMLModel :: "bytes32 \<Rightarrow> bytes64 \<Rightarrow> ledger \<Rightarrow> ledger" where
  "updateMLModel new_model_hash admin_signature led = led\<lparr>ml_model_hash := new_model_hash\<rparr>"

text \<open>The ledger before any transaction: no entry in any map.\<close>

definition initial_ledger :: "bytes32 \<Rightarrow> ledger" where
  "initial_ledger h =
     \<lparr>user_scores = Map.empty, score_commitments = Map.empty, ml_model_hash = h,
      survey_responses = Map.empty\<rparr>"

text \<open>The shapes fixed by the parameter types \<^verbatim>\<open>[Field; 50]\<close>, \<^verbatim>\<open>[Field; 4]\<close>, \<^verbatim>\<open>[Field; 54]\<close>.\<close>

definition well_shaped :: "field list \<Rightarrow> field list \<Rightarrow> field list \<Rightarrow> bool" where
  "well_shaped encrypted_responses koios_features ml_model_weights \<longleftrightarrow>
     length encrypted_responses = 50 \<and> length koios_features = 4 \<and> length ml_model_weights = 54"


subsection \<open>The commitment computed by the caller\<close>

text \<open>
  \<^verbatim>\<open>calculateCommitment\<close> of generateProof.js (lines 52-55) is
  \<^verbatim>\<open>responses.reduce((sum, response) => sum + response, 0)\<close> on JavaScript Numbers, which
  are binary64 floating-point values. The responses go on to a circuit whose parameters are
  Field values, so they are Numbers that hold integers. The sum of two such Numbers is the
  exact integer sum rounded to 53 significant bits, ties to the even significand, and is
  not finite from \<open>2^1024\<close> on. \<open>None\<close> stands for a Number that is not finite.
\<close>

function bit_length :: "int \<Rightarrow> nat" where
  "bit_length a = (if a \<le> 0 then 0 else Suc (bit_length (a div 2)))"
  by pat_completeness auto

termination bit_length
  by (relation "measure nat") auto

declare bit_length.simps [simp del]

definition round_to_double :: "int \<Rightarrow> int" where
  "round_to_double x =
     (let a = \<bar>x\<bar>; n = bit_length a
      in if n \<le> 53 then x
         else let e = n - 53; q = a div 2 ^ e; r = a mod 2 ^ e; h = 2 ^ (e - 1);
                  m = (if h < r \<or> (r = h \<and> odd q) then q + 1 else q)
              in sgn x * (m * 2 ^ e))"

definition js_add :: "int option \<Rightarrow> int \<Rightarrow> int option" where
  "js_add acc response =
     (case acc of
        None \<Rightarrow> None
      | Some s \<Rightarrow> (let y = round_to_double (s + response)
                  in if \<bar>y\<bar> < 2 ^ 1024 then Some y else None))"

definition calculateCommitment :: "int list \<Rightarrow> int option" where
  "calculateCommitment responses = foldl (\<lambda>acc response. js_add acc response) (Some 0) responses"

text \<open>
  Responses that are nonnegative integers with a sum below \<open>2^53\<close> have every partial sum
  below \<open>2^53\<close>, where binary64 addition of integers is exact. Fifty answers on the
  survey's scale of 1 to 5 are of this kind.
\<close>

definition exactly_summable :: "int list \<Rightarrow> bool" where
  "exactly_summable responses \<longleftrightarrow>
     (\<forall>x\<in>set responses. 0 \<le> x) \<and> sum_list responses < 2 ^ 53"

text \<open>
  Modelled from the spec: the dispatch entry point of \<^verbatim>\<open>computeAndStoreScore\<close>. The
  wrapper \<^verbatim>\<open>contract.circuits.computeAndStoreScore\<close> that the tests and generateProof.js call
  is generated code which is not among the sources; the spec (section 6, section 7) has it
  reject vectors whose lengths are not 50/4/54 with \<open>ShapeError\<close> before any computation.
\<close>

definition dispatch_computeAndStoreScore ::
  "int \<Rightarrow> field list \<Rightarrow> field list \<Rightarrow> field list \<Rightarrow> field \<Rightarrow> address \<Rightarrow> bytes32 \<Rightarrow> ledger
     \<Rightarrow> (error + unit) \<times> ledger" where
  "dispatch_computeAndStoreScore p encrypted_responses koios_features ml_model_weights ml_model_bias
       wallet_address response_commitment led =
     (if \<not> well_shaped encrypted_responses koios_features ml_model_weights
      then (Inl ShapeError, led)
      else computeAndStoreScore p encrypted_responses koios_features ml_model_weights ml_model_bias
             wallet_address response_commitment led)"

subsection \<open>Sequences of operations\<close>

datatype operation =
    ComputeAndStoreScore "field list" "field list" "field list" field address bytes32
  | VerifyScore address uint32
  | UpdateMLModel bytes32 bytes64

fun step :: "int \<Rightarrow> missing_key \<Rightarrow> operation \<Rightarrow> ledger \<Rightarrow> ledger" where
  "step p mk (ComputeAndStoreScore r f w b a c) led = snd (computeAndStoreScore p r f w b a c led)"
| "step p mk (VerifyScore a e) led = snd (verifyScore mk a e led)"
| "step p mk (UpdateMLModel h s) led = updateMLModel h s led"

definition run :: "int \<Rightarrow> missing_key \<Rightarrow> operation list \<Rightarrow> ledger \<Rightarrow> ledger" where
  "run p mk ops led = fold (step p mk) ops led"

text \<open>
  The spec's words for \<^verbatim>\<open>verifyScore\<close>: the score stored by the most recent successful
  \<^verbatim>\<open>computeAndStoreScore\<close> for an identity. \<open>successful_store\<close> is the identity and score
  of an operation that is a successful \<^verbatim>\<open>computeAndStoreScore\<close>; \<open>most_recent_score\<close> looks
  for the latest one in a chronological sequence of operations, later operations first.
\<close>

fun successful_store :: "int \<Rightarrow> operation \<Rightarrow> ledger \<Rightarrow> (address \<times> uint32) option" where
  "successful_store p (ComputeAndStoreScore r f w b a c) led =
     (case fst (computeAndStoreScore p r f w b a c led) of
        Inr _ \<Rightarrow> Some (a, word_of_int (compute_score p r f w b))
      | Inl _ \<Rightarrow> None)"
| "successful_store p (VerifyScore a e) led = None"
| "successful_store p (UpdateMLModel h s) led = None"

fun most_recent_score ::
  "int \<Rightarrow> missing_key \<Rightarrow> address \<Rightarrow> operation list \<Rightarrow> ledger \<Rightarrow> uint32 option" where
  "most_recent_score p mk a [] led = None"
| "most_recent_score p mk a (operation # ops) led =
     (case most_recent_score p mk a ops (step p mk operation led) of
        Some s \<Rightarrow> Some s
      | None \<Rightarrow>
          (case successful_store p operation led of
             Some (a', s) \<Rightarrow> if a' = a then Some s else None
           | None \<Rightarrow> None))"

text \<open>
  The closed examples below take as modulus the 255-bit prime that is the order of the
  scalar field of the curve BLS12-381.
\<close>

abbreviation (input) scalar_prime :: int where
  "scalar_prime \<equiv> 52435875175126190479447740508185965837690552500527637822603658699938581184513"

section \<open>Loops as sums in the field\<close>

lemma fold_fadd_upt:
  "fold (\<lambda>i acc. fadd p acc (g i)) [0..<Suc n] b = (b + (\<Sum>i<Suc n. g i)) mod p"
proof (induction n)
  case 0
  show ?case by (simp add: fadd_def)
next
  case (Suc n)
  have "fold (\<lambda>i acc. fadd p acc (g i)) [0..<Suc (Suc n)] b
          = fadd p (fold (\<lambda>i acc. fadd p acc (g i)) [0..<Suc n] b) (g (Suc n))"
    by simp
  also have "\<dots> = ((b + (\<Sum>i<Suc n. g i)) mod p + g (Suc n)) mod p"
    by (subst Suc.IH) (simp only: fadd_def)
  also have "\<dots> = (b + (\<Sum>i<Suc n. g i) + g (Suc n)) mod p"
    by (rule mod_add_left_eq)
  also have "b + (\<Sum>i<Suc n. g i) + g (Suc n) = b + (\<Sum>i<Suc (Suc n). g i)"
    by simp
  finally show ?case .
qed








lemma uint32_of_score:
  "0 \<le> v \<Longrightarrow> v \<le> 100 \<Longrightarrow> uint (word_of_int v :: uint32) = v"
  by (simp add: uint_word_of_int take_bit_int_eq_self)

lemma calculated_commitment_sum:
  "calculated_commitment p r = (\<Sum>i<50. r ! i) mod p"
proof -
  have "calculated_commitment p r = (0 + (\<Sum>i<Suc 49. r ! i)) mod p"
    unfolding calculated_commitment_def
    using fold_fadd_upt [of p "\<lambda>i. r ! i" 49 0] by simp
  then show ?thesis by simp
qed

lemma calculated_commitment_sum_list:
  assumes "length r = 50"
  shows "calculated_commitment p r = sum_list r mod p"
proof -
  have "sum_list r = (\<Sum>i = 0..<length r. r ! i)"
    by (rule sum_list_sum_nth)
  also have "\<dots> = (\<Sum>i<50. r ! i)"
    using assms by (simp add: lessThan_atLeast0)
  finally show ?thesis
    by (simp add: calculated_commitment_sum)
qed

section \<open>Outcomes of \<^verbatim>\<open>computeAndStoreScore\<close>\<close>

lemma computeAndStoreScore_failure_ledger:
  "computeAndStoreScore p r f w b a c led = (Inl e, led') \<Longrightarrow> led' = led"
  unfolding computeAndStoreScore_def Let_def by (simp split: if_splits)

lemma computeAndStoreScore_success_ledger:
  assumes "fst (computeAndStoreScore p r f w b a c led) = Inr u"
  shows "snd (computeAndStoreScore p r f w b a c led) =
           led\<lparr>user_scores := (user_scores led)(a \<mapsto> word_of_int (compute_score p r f w b)),
                score_commitments := (score_commitments led)(a \<mapsto> c)\<rparr>"
  using assms unfolding computeAndStoreScore_def Let_def by (simp split: if_splits)

lemma computeAndStoreScore_success_iff:
  "fst (computeAndStoreScore p r f w b a c led) = Inr () \<longleftrightarrow>
     0 \<le> compute_score p r f w b \<and> compute_score p r f w b \<le> 100 \<and> verify_commitment p r c"
  unfolding computeAndStoreScore_def Let_def by simp

section \<open>The score computation\<close>




section \<open>Failure leaves the ledger alone\<close>

text \<open>
  Claim C2. An invocation of \<^verbatim>\<open>computeAndStoreScore\<close> that fails (with \<open>RangeError\<close> or
  \<open>CommitmentMismatch\<close>, the only failures of the circuit) stops with the ledger it started
  from: no entry is created or modified, a vacant address stays vacant and an occupied one
  keeps its score and commitment.
\<close>

theorem failed_invocation_keeps_ledger:
  assumes "computeAndStoreScore p r f w b a c led = (Inl e, led')"
  shows "led' = led
       \<and> (e = RangeError \<or> e = CommitmentMismatch)
       \<and> user_scores led' = user_scores led
       \<and> score_commitments led' = score_commitments led"
proof -
  have same: "led' = led"
    using assms by (rule computeAndStoreScore_failure_ledger)
  have "e = RangeError \<or> e = CommitmentMismatch"
    using assms unfolding computeAndStoreScore_def Let_def by (auto split: if_splits)
  with same show ?thesis by simp
qed

theorem failed_invocation_keeps_ledger_witness:
  "computeAndStoreScore scalar_prime (replicate 50 1) (replicate 4 1) (replicate 54 1) 0 ''alice'' 49
       (initial_ledger 7) = (Inl CommitmentMismatch, initial_ledger 7)
   \<and> user_scores (initial_ledger 7) ''alice'' = None"
proof -
  have out: "fst (computeAndStoreScore scalar_prime (replicate 50 1) (replicate 4 1) (replicate 54 1)
       0 ''alice'' 49 (initial_ledger 7)) = Inl CommitmentMismatch"
    by code_simp
  obtain led' where run:
    "computeAndStoreScore scalar_prime (replicate 50 1) (replicate 4 1) (replicate 54 1) 0 ''alice'' 49
       (initial_ledger 7) = (Inl CommitmentMismatch, led')"
    using out by (metis prod.collapse)
  from failed_invocation_keeps_ledger [OF run] have "led' = initial_ledger 7"
    by simp
  with run show ?thesis
    by (simp add: initial_ledger_def)
qed

section \<open>Stored scores stay in range\<close>

lemma verifyScore_ledger:
  "snd (verifyScore mk a e led) = led"
  by (simp add: verifyScore_def split: sum.splits)

lemma step_keeps_range:
  assumes "\<forall>a s. user_scores led a = Some s \<longrightarrow> uint s \<le> 100"
  shows "\<forall>a s. user_scores (step p mk operation led) a = Some s \<longrightarrow> uint s \<le> 100"
proof (cases operation)
  case (ComputeAndStoreScore r f w b a c)
  show ?thesis
  proof (cases "fst (computeAndStoreScore p r f w b a c led)")
    case (Inl e)
    then have "computeAndStoreScore p r f w b a c led
                 = (Inl e, snd (computeAndStoreScore p r f w b a c led))"
      by (metis prod.collapse)
    then have "snd (computeAndStoreScore p r f w b a c led) = led"
      by (rule computeAndStoreScore_failure_ledger)
    with assms ComputeAndStoreScore show ?thesis by simp
  next
    case (Inr u)
    then have rng: "0 \<le> compute_score p r f w b \<and> compute_score p r f w b \<le> 100"
      using computeAndStoreScore_success_iff [of p r f w b a c led] by simp
    then have "uint (word_of_int (compute_score p r f w b) :: uint32) \<le> 100"
      by (simp add: uint32_of_score)
    with assms ComputeAndStoreScore computeAndStoreScore_success_ledger [OF Inr] show ?thesis
      by simp
  qed
next
  case (VerifyScore a e)
  with assms show ?thesis by (simp add: verifyScore_ledger)
next
  case (UpdateMLModel h s)
  with assms show ?thesis by (simp add: updateMLModel_def)
qed

lemma run_keeps_range:
  "\<forall>a s. user_scores led a = Some s \<longrightarrow> uint s \<le> 100 \<Longrightarrow>
   \<forall>a s. user_scores (run p mk ops led) a = Some s \<longrightarrow> uint s \<le> 100"
  unfolding run_def
proof (induction ops arbitrary: led)
  case Nil
  then show ?case by simp
next
  case (Cons operation ops)
  from Cons.IH [OF step_keeps_range [OF Cons.prems]] show ?case by simp
qed

text \<open>
  Claim C4. In the ledger reached from the initial (all vacant) ledger by any sequence of
  \<^verbatim>\<open>computeAndStoreScore\<close>, \<^verbatim>\<open>verifyScore\<close> and \<^verbatim>\<open>updateMLModel\<close> operations, every stored
  score lies in [0,100].
\<close>

theorem stored_scores_in_range:
  assumes "user_scores (run p mk ops (initial_ledger h)) a = Some s"
  shows "0 \<le> uint s \<and> uint s \<le> 100"
proof -
  have "\<forall>a s. user_scores (initial_ledger h) a = Some s \<longrightarrow> uint s \<le> 100"
    by (simp add: initial_ledger_def)
  from run_keeps_range [OF this] assms show ?thesis by simp
qed

theorem stored_scores_in_range_witness:
  "user_scores
     (run scalar_prime Fails
        [ComputeAndStoreScore (replicate 50 1) (replicate 4 1) (replicate 54 1) 0 ''alice'' 50,
         UpdateMLModel 11 0,
         ComputeAndStoreScore (replicate 50 1) (replicate 4 1) (replicate 54 2) 0 ''alice'' 50,
         VerifyScore ''alice'' 54]
        (initial_ledger 0)) ''alice'' = Some 54
   \<and> 0 \<le> uint (54 :: uint32) \<and> uint (54 :: uint32) \<le> 100"
proof -
  have r: "user_scores
     (run scalar_prime Fails
        [ComputeAndStoreScore (replicate 50 1) (replicate 4 1) (replicate 54 1) 0 ''alice'' 50,
         UpdateMLModel 11 0,
         ComputeAndStoreScore (replicate 50 1) (replicate 4 1) (replicate 54 2) 0 ''alice'' 50,
         VerifyScore ''alice'' 54]
        (initial_ledger 0)) ''alice'' = Some 54"
    by code_simp
  from stored_scores_in_range [OF r] r show ?thesis by simp
qed

section \<open>Order of the stages\<close>

text \<open>
  Claim C5, as stated, fails. The circuit computes the score and asserts its range before
  it checks the commitment (lines 92-106 come before lines 109-113): with fifty responses
  of 1, four features of 1, weights of 2 and bias 0 the score is 108, and with commitment 49
  (the responses sum to 50) the invocation fails with \<open>RangeError\<close>, not with
  \<open>CommitmentMismatch\<close>.
\<close>

theorem mismatch_with_bad_range_counterexample:
  "\<not> verify_commitment scalar_prime (replicate 50 1) 49
   \<and> fst (computeAndStoreScore scalar_prime (replicate 50 1) (replicate 4 1) (replicate 54 2) 0
            ''alice'' 49 (initial_ledger 0)) = Inl RangeError
   \<and> fst (computeAndStoreScore scalar_prime (replicate 50 1) (replicate 4 1) (replicate 54 2) 0
            ''alice'' 49 (initial_ledger 0)) \<noteq> Inl CommitmentMismatch"
  by code_simp

text \<open>
  Claim C5, amended. \<^verbatim>\<open>computeAndStoreScore\<close> computes the score and asserts its range first,
  then checks the commitment, then writes the ledger. On a well-shaped input whose commitment
  mismatches, the invocation fails with \<open>CommitmentMismatch\<close> when the computed score lies in
  [0,100] and with \<open>RangeError\<close> otherwise; in both cases the ledger write is not reached.
\<close>

theorem range_check_precedes_commitment_check:
  assumes "well_shaped r f w" and "\<not> verify_commitment p r c"
  shows "computeAndStoreScore p r f w b a c led =
           (if 0 \<le> compute_score p r f w b \<and> compute_score p r f w b \<le> 100
            then (Inl CommitmentMismatch, led)
            else (Inl RangeError, led))"
  using assms(2) unfolding computeAndStoreScore_def Let_def by auto

theorem range_check_precedes_commitment_check_witness:
  "well_shaped (replicate 50 1) (replicate 4 1) (replicate 54 1)
   \<and> \<not> verify_commitment scalar_prime (replicate 50 1) 49
   \<and> computeAndStoreScore scalar_prime (replicate 50 1) (replicate 4 1) (replicate 54 1) 0 ''bob'' 49
        (initial_ledger 0) = (Inl CommitmentMismatch, initial_ledger 0)"
proof -
  have s: "well_shaped (replicate 50 1) (replicate 4 1) (replicate 54 1)"
    by (simp add: well_shaped_def)
  have m: "\<not> verify_commitment scalar_prime (replicate 50 1) 49"
    by code_simp
  have v: "compute_score scalar_prime (replicate 50 1) (replicate 4 1) (replicate 54 1) 0 = 54"
    by code_simp
  show ?thesis
    using range_check_precedes_commitment_check [OF s m, of 0 "''bob''" "initial_ledger 0"] s m v
    by simp
qed

section \<open>The caller's sum in binary64\<close>

lemma bit_length_bound:
  "a < 2 ^ k \<Longrightarrow> bit_length a \<le> k"
proof (induction k arbitrary: a)
  case 0
  then have "a \<le> 0" by simp
  then show ?case by (subst bit_length.simps) simp
next
  case (Suc k)
  show ?case
  proof (cases "a \<le> 0")
    case True
    then show ?thesis by (subst bit_length.simps) simp
  next
    case False
    from Suc.prems have "a div 2 < 2 ^ k" by simp
    from Suc.IH [OF this] False show ?thesis
      by (subst bit_length.simps) simp
  qed
qed

lemma round_to_double_exact:
  assumes "\<bar>x\<bar> < 2 ^ 53"
  shows "round_to_double x = x"
  using bit_length_bound [OF assms] by (simp add: round_to_double_def Let_def)

lemma js_add_exact:
  assumes "\<bar>s + x\<bar> < 2 ^ 53"
  shows "js_add (Some s) x = Some (s + x)"
proof -
  have "(2::int) ^ 53 < 2 ^ 1024" by simp
  with assms have "\<bar>s + x\<bar> < 2 ^ 1024" by linarith
  then show ?thesis
    by (simp add: js_add_def round_to_double_exact [OF assms])
qed

lemma foldl_js_add_exact:
  "0 \<le> s \<Longrightarrow> \<forall>x\<in>set xs. 0 \<le> x \<Longrightarrow> s + sum_list xs < 2 ^ 53 \<Longrightarrow>
     foldl js_add (Some s) xs = Some (s + sum_list xs)"
proof (induction xs arbitrary: s)
  case Nil
  then show ?case by simp
next
  case (Cons x xs)
  have rest: "0 \<le> sum_list xs"
    using Cons.prems(2) by (simp add: sum_list_nonneg)
  have x0: "0 \<le> x" using Cons.prems(2) by simp
  have "\<bar>s + x\<bar> < 2 ^ 53"
    using Cons.prems(1,3) rest x0 by simp
  then have first: "js_add (Some s) x = Some (s + x)"
    by (rule js_add_exact)
  have "foldl js_add (Some (s + x)) xs = Some (s + x + sum_list xs)"
    using Cons.prems x0 by (intro Cons.IH) (simp_all add: add.assoc)
  with first show ?case by (simp add: add.assoc)
qed

lemma elem_le_sum_list:
  "\<forall>x\<in>set xs. (0::int) \<le> x \<Longrightarrow> y \<in> set xs \<Longrightarrow> y \<le> sum_list xs"
proof (induction xs)
  case Nil
  then show ?case by simp
next
  case (Cons x xs)
  have "0 \<le> sum_list xs"
    using Cons.prems(1) by (simp add: sum_list_nonneg)
  with Cons show ?case by auto
qed

lemma calculateCommitment_exact:
  assumes "exactly_summable r"
  shows "calculateCommitment r = Some (sum_list r)"
proof -
  have nn: "\<forall>x\<in>set r. 0 \<le> x" and "0 + sum_list r < 2 ^ 53"
    using assms by (simp_all add: exactly_summable_def)
  from foldl_js_add_exact [OF _ this] show ?thesis
    by (simp add: calculateCommitment_def)
qed

lemma sum_list_update_int:
  "i < length xs \<Longrightarrow> sum_list (xs[i := v]) = sum_list xs + v - (xs ! i :: int)"
proof (induction xs arbitrary: i)
  case Nil
  then show ?case by simp
next
  case (Cons x xs)
  then show ?case by (cases i) simp_all
qed

lemma mod_shift_neq:
  assumes "0 \<le> S" and "S < p" and "d \<noteq> 0" and "\<bar>d\<bar> < p"
  shows "(S + d) mod p \<noteq> (S::int)"
proof
  assume "(S + d) mod p = S"
  with assms(1,2) have "(S + d) mod p = S mod p" by simp
  then have "p dvd (S + d) - S" by (simp only: mod_eq_dvd_iff)
  then have "p dvd d" by simp
  with assms(3) have "\<bar>p\<bar> \<le> \<bar>d\<bar>" by (simp add: dvd_imp_le_int)
  with assms(4) show False by simp
qed

section \<open>Sensitivity of the commitment\<close>

text \<open>
  Claim C6, as stated, fails. For the fifty responses \<open>2^53, 1, 0, ..., 0\<close> the caller's
  binary64 sum rounds \<open>2^53 + 1\<close> to \<open>2^53\<close>, while the circuit recomputes \<open>2^53 + 1\<close> in the
  field: the circuit rejects the commitment computed from the very same vector, and it
  accepts that commitment for the vector with entry 1 changed from 1 to 0.
\<close>

theorem rounded_commitment_counterexample:
  "calculateCommitment (2 ^ 53 # 1 # replicate 48 0) = Some (2 ^ 53)
   \<and> \<not> verify_commitment scalar_prime (2 ^ 53 # 1 # replicate 48 0) (2 ^ 53)
   \<and> (0::int) \<noteq> (2 ^ 53 # 1 # replicate 48 0) ! 1
   \<and> verify_commitment scalar_prime ((2 ^ 53 # 1 # replicate 48 0)[1 := 0]) (2 ^ 53)"
  by code_simp

text \<open>
  Claim C6, amended. For every vector of fifty nonnegative integer responses whose sum is
  below \<open>2^53\<close> and below the field prime, \<^verbatim>\<open>calculateCommitment\<close> returns that sum and the
  commitment check of the circuit accepts it; and with any one entry replaced by a
  different Field value, the check against the original commitment fails.
\<close>

theorem commitment_accepts_own_rejects_mutation:
  assumes "length r = 50" and "exactly_summable r" and "sum_list r < p"
  shows "calculateCommitment r = Some (sum_list r)
       \<and> verify_commitment p r (sum_list r)
       \<and> (\<forall>i<50. \<forall>v. is_field p v \<and> v \<noteq> r ! i \<longrightarrow>
             \<not> verify_commitment p (r[i := v]) (sum_list r))"
proof -
  have nn: "\<forall>x\<in>set r. 0 \<le> x"
    using assms(2) by (simp add: exactly_summable_def)
  have S: "0 \<le> sum_list r" "sum_list r < p"
    using nn assms(3) by (simp_all add: sum_list_nonneg)
  have own: "verify_commitment p r (sum_list r)"
    using S by (simp add: verify_commitment_def calculated_commitment_sum_list [OF assms(1)])
  have mut: "\<not> verify_commitment p (r[i := v]) (sum_list r)"
    if "i < 50" and "is_field p v \<and> v \<noteq> r ! i" for i v
  proof -
    have mem: "r ! i \<in> set r"
      using assms(1) that(1) by simp
    have ri: "0 \<le> r ! i" "r ! i < p"
      using nn mem elem_le_sum_list [OF nn mem] S(2) by simp_all
    have d0: "v - r ! i \<noteq> 0"
      using that(2) by simp
    have d1: "\<bar>v - r ! i\<bar> < p"
      using that(2) ri unfolding is_field_def by linarith
    have "calculated_commitment p (r[i := v]) = (sum_list r + (v - r ! i)) mod p"
      using assms(1) that(1)
      by (simp add: calculated_commitment_sum_list sum_list_update_int algebra_simps)
    with mod_shift_neq [OF S d0 d1] show ?thesis
      by (simp add: verify_commitment_def)
  qed
  from calculateCommitment_exact [OF assms(2)] own mut show ?thesis by blast
qed

theorem commitment_accepts_own_rejects_mutation_witness:
  "length (replicate 50 (3::int)) = 50
   \<and> exactly_summable (replicate 50 3)
   \<and> sum_list (replicate 50 3) < scalar_prime
   \<and> calculateCommitment (replicate 50 3) = Some 150
   \<and> verify_commitment scalar_prime (replicate 50 3) 150
   \<and> is_field scalar_prime 5 \<and> (5::int) \<noteq> replicate 50 3 ! 7
   \<and> \<not> verify_commitment scalar_prime ((replicate 50 3)[7 := 5]) 150"
proof -
  have l: "length (replicate 50 (3::int)) = 50" by simp
  have s: "sum_list (replicate 50 (3::int)) = 150" by (simp add: sum_list_replicate)
  have x: "exactly_summable (replicate 50 3)" by (simp add: exactly_summable_def s)
  have p: "sum_list (replicate 50 3) < scalar_prime" by (simp add: s)
  have k: "(7::nat) < 50" by simp
  have d: "is_field scalar_prime 5 \<and> (5::int) \<noteq> replicate 50 3 ! 7"
    by (simp add: is_field_def)
  note t = commitment_accepts_own_rejects_mutation [OF l x p, unfolded s]
  from t k d have "\<not> verify_commitment scalar_prime ((replicate 50 3)[7 := 5]) 150"
    by blast
  with t l x p d show ?thesis by blast
qed

section \<open>Reading a score back\<close>

lemma step_user_scores:
  "user_scores (step p mk operation led) a =
     (case successful_store p operation led of
        Some (a', s) \<Rightarrow> if a' = a then Some s else user_scores led a
      | None \<Rightarrow> user_scores led a)"
proof (cases operation)
  case (ComputeAndStoreScore r f w b a' c)
  show ?thesis
  proof (cases "fst (computeAndStoreScore p r f w b a' c led)")
    case (Inl e)
    then have "computeAndStoreScore p r f w b a' c led
                 = (Inl e, snd (computeAndStoreScore p r f w b a' c led))"
      by (metis prod.collapse)
    then have "snd (computeAndStoreScore p r f w b a' c led) = led"
      by (rule computeAndStoreScore_failure_ledger)
    with Inl ComputeAndStoreScore show ?thesis by simp
  next
    case (Inr u)
    with ComputeAndStoreScore computeAndStoreScore_success_ledger [OF Inr] show ?thesis
      by simp
  qed
next
  case (VerifyScore a' e)
  then show ?thesis by (simp add: verifyScore_ledger)
next
  case (UpdateMLModel h s)
  then show ?thesis by (simp add: updateMLModel_def)
qed

lemma run_user_scores:
  "user_scores (run p mk ops led) a =
     (case most_recent_score p mk a ops led of Some s \<Rightarrow> Some s | None \<Rightarrow> user_scores led a)"
proof (induction ops arbitrary: led)
  case Nil
  then show ?case by (simp add: run_def)
next
  case (Cons operation ops)
  have "user_scores (run p mk (operation # ops) led) a
          = user_scores (run p mk ops (step p mk operation led)) a"
    by (simp add: run_def)
  also have "\<dots> = (case most_recent_score p mk a ops (step p mk operation led) of
                      Some s \<Rightarrow> Some s | None \<Rightarrow> user_scores (step p mk operation led) a)"
    by (rule Cons.IH)
  finally show ?case
    by (simp add: step_user_scores split: option.splits)
qed

text \<open>
  Claim C7, as stated, fails for an identity without an entry. \<^verbatim>\<open>verifyScore\<close> compares
  \<^verbatim>\<open>user_scores[wallet_address]\<close> with the expected score without a membership test: if the
  lookup of a missing key yields a value (here 0), the call returns true when that value is
  the expected score; if the lookup fails, the call fails and returns nothing. In neither
  case does it return false for every expected score.
\<close>

theorem vacant_lookup_counterexample:
  "user_scores (initial_ledger 0) ''bob'' = None
   \<and> fst (verifyScore (Yields 0) ''bob'' 0 (initial_ledger 0)) = Inr True
   \<and> fst (verifyScore Fails ''bob'' 0 (initial_ledger 0)) = Inl MissingKey"
  by (simp add: verifyScore_def lookup_score_def initial_ledger_def)

text \<open>
  Claim C7, amended. \<^verbatim>\<open>verifyScore\<close> leaves the ledger as it is. After any sequence of
  operations from the initial ledger, the score stored for an address is the one stored by
  the most recent successful \<^verbatim>\<open>computeAndStoreScore\<close> for it, and for an address with a
  stored score \<^verbatim>\<open>verifyScore\<close> returns true exactly when that score is the expected one.
  For an address without an entry the result is that of the ledger map's lookup of a
  missing key: the call fails when the lookup fails, and returns whether the expected
  score is the value the lookup yields otherwise.
\<close>

theorem verifyScore_reads_latest_store:
  "snd (verifyScore mk a e led) = led
   \<and> user_scores (run p mk ops (initial_ledger h)) a = most_recent_score p mk a ops (initial_ledger h)
   \<and> (user_scores led a = Some s \<longrightarrow> fst (verifyScore mk a e led) = Inr (s = e))
   \<and> (most_recent_score p mk a ops (initial_ledger h) = Some s \<longrightarrow>
        fst (verifyScore mk a e (run p mk ops (initial_ledger h))) = Inr (s = e))
   \<and> (user_scores led a = None \<longrightarrow>
        fst (verifyScore Fails a e led) = Inl MissingKey
      \<and> fst (verifyScore (Yields d) a e led) = Inr (d = e))"
proof -
  have latest: "user_scores (run p mk ops (initial_ledger h)) a
                  = most_recent_score p mk a ops (initial_ledger h)"
    by (simp add: run_user_scores initial_ledger_def split: option.splits)
  have occ: "fst (verifyScore mk a e l) = Inr (s = e)" if "user_scores l a = Some s" for l
    using that by (simp add: verifyScore_def lookup_score_def)
  have vac: "fst (verifyScore Fails a e led) = Inl MissingKey
           \<and> fst (verifyScore (Yields d) a e led) = Inr (d = e)" if "user_scores led a = None"
    using that by (simp add: verifyScore_def lookup_score_def)
  from latest occ [of led] occ [of "run p mk ops (initial_ledger h)"] vac verifyScore_ledger [of mk a e led]
  show ?thesis by simp
qed

theorem verifyScore_reads_latest_store_witness:
  "most_recent_score scalar_prime Fails ''alice''
     [ComputeAndStoreScore (replicate 50 1) (replicate 4 1) (replicate 54 1) 0 ''alice'' 50,
      ComputeAndStoreScore (replicate 50 1) (replicate 4 1) (replicate 54 1) 4 ''alice'' 50,
      ComputeAndStoreScore (replicate 50 1) (replicate 4 1) (replicate 54 1) 9 ''alice'' 49]
     (initial_ledger 0) = Some 58
   \<and> fst (verifyScore Fails ''alice'' 58
       (run scalar_prime Fails
          [ComputeAndStoreScore (replicate 50 1) (replicate 4 1) (replicate 54 1) 0 ''alice'' 50,
           ComputeAndStoreScore (replicate 50 1) (replicate 4 1) (replicate 54 1) 4 ''alice'' 50,
           ComputeAndStoreScore (replicate 50 1) (replicate 4 1) (replicate 54 1) 9 ''alice'' 49]
          (initial_ledger 0))) = Inr True
   \<and> user_scores (initial_ledger 0) ''bob'' = None
   \<and> fst (verifyScore Fails ''bob'' 58 (initial_ledger 0)) = Inl MissingKey
   \<and> fst (verifyScore (Yields 0) ''bob'' 58 (initial_ledger 0)) = Inr False"
proof -
  have m: "most_recent_score scalar_prime Fails ''alice''
     [ComputeAndStoreScore (replicate 50 1) (replicate 4 1) (replicate 54 1) 0 ''alice'' 50,
      ComputeAndStoreScore (replicate 50 1) (replicate 4 1) (replicate 54 1) 4 ''alice'' 50,
      ComputeAndStoreScore (replicate 50 1) (replicate 4 1) (replicate 54 1) 9 ''alice'' 49]
     (initial_ledger 0) = Some 58"
    by code_simp
  have v: "user_scores (initial_ledger 0) ''bob'' = None"
    by (simp add: initial_ledger_def)
  from verifyScore_reads_latest_store [of Fails "''alice''" 58 "initial_ledger 0" scalar_prime
      "[ComputeAndStoreScore (replicate 50 1) (replicate 4 1) (replicate 54 1) 0 ''alice'' 50,
        ComputeAndStoreScore (replicate 50 1) (replicate 4 1) (replicate 54 1) 4 ''alice'' 50,
        ComputeAndStoreScore (replicate 50 1) (replicate 4 1) (replicate 54 1) 9 ''alice'' 49]" 0 58 0]
       m
  have a: "fst (verifyScore Fails ''alice'' 58
       (run scalar_prime Fails
          [ComputeAndStoreScore (replicate 50 1) (replicate 4 1) (replicate 54 1) 0 ''alice'' 50,
           ComputeAndStoreScore (replicate 50 1) (replicate 4 1) (replicate 54 1) 4 ''alice'' 50,
           ComputeAndStoreScore (replicate 50 1) (replicate 4 1) (replicate 54 1) 9 ''alice'' 49]
          (initial_ledger 0))) = Inr True"
    by simp
  from verifyScore_reads_latest_store [of Fails "''bob''" 58 "initial_ledger 0" scalar_prime "[]" 0 58 0] v
  have b: "fst (verifyScore Fails ''bob'' 58 (initial_ledger 0)) = Inl MissingKey
         \<and> fst (verifyScore (Yields 0) ''bob'' 58 (initial_ledger 0)) = Inr False"
    by simp
  from m a v b show ?thesis by simp
qed

section \<open>Shape of the arguments\<close>

text \<open>
  Claim C8. The dispatch entry point of \<^verbatim>\<open>computeAndStoreScore\<close> rejects a responses vector
  whose length is not 50, a features vector whose length is not 4 or a weights vector whose
  length is not 54 with \<open>ShapeError\<close>, with the ledger untouched and the circuit not run.
\<close>

theorem dispatch_rejects_bad_shape:
  assumes "length r \<noteq> 50 \<or> length f \<noteq> 4 \<or> length w \<noteq> 54"
  shows "dispatch_computeAndStoreScore p r f w b a c led = (Inl ShapeError, led)"
  using assms unfolding dispatch_computeAndStoreScore_def well_shaped_def by auto

theorem dispatch_rejects_bad_shape_witness:
  "dispatch_computeAndStoreScore scalar_prime (replicate 49 1) (replicate 4 1) (replicate 54 1) 0
     ''alice'' 49 (initial_ledger 0) = (Inl ShapeError, initial_ledger 0)
   \<and> dispatch_computeAndStoreScore scalar_prime (replicate 50 1) (replicate 5 1) (replicate 54 1) 0
     ''alice'' 50 (initial_ledger 0) = (Inl ShapeError, initial_ledger 0)
   \<and> dispatch_computeAndStoreScore scalar_prime (replicate 50 1) (replicate 4 1) (replicate 53 1) 0
     ''alice'' 50 (initial_ledger 0) = (Inl ShapeError, initial_ledger 0)"
  using dispatch_rejects_bad_shape [of "replicate 49 1" "replicate 4 1" "replicate 54 1"
          scalar_prime 0 "''alice''" 49 "initial_ledger 0"]
        dispatch_rejects_bad_shape [of "replicate 50 1" "replicate 5 1" "replicate 54 1"
          scalar_prime 0 "''alice''" 50 "initial_ledger 0"]
        dispatch_rejects_bad_shape [of "replicate 50 1" "replicate 4 1" "replicate 53 1"
          scalar_prime 0 "''alice''" 50 "initial_ledger 0"]
  by simp

section \<open>Frame of a successful store\<close>

text \<open>
  Claim C9. A successful \<^verbatim>\<open>computeAndStoreScore\<close> changes the ledger in exactly two places:
  the identity's entry of \<^verbatim>\<open>user_scores\<close> becomes the computed score and its entry of
  \<^verbatim>\<open>score_commitments\<close> becomes the supplied commitment. The entries of every other
  address, \<^verbatim>\<open>ml_model_hash\<close> and \<^verbatim>\<open>survey_responses\<close> are unchanged, so the responses,
  features and weights themselves are written nowhere.
\<close>

theorem store_frame:
  assumes "computeAndStoreScore p r f w b a c led = (Inr u, led')"
  shows "led' = led\<lparr>user_scores := (user_scores led)(a \<mapsto> word_of_int (compute_score p r f w b)),
                     score_commitments := (score_commitments led)(a \<mapsto> c)\<rparr>
       \<and> (\<forall>a'. a' \<noteq> a \<longrightarrow> user_scores led' a' = user_scores led a'
                        \<and> score_commitments led' a' = score_commitments led a')
       \<and> ml_model_hash led' = ml_model_hash led
       \<and> survey_responses led' = survey_responses led"
proof -
  have "fst (computeAndStoreScore p r f w b a c led) = Inr u"
    using assms by simp
  from computeAndStoreScore_success_ledger [OF this] assms
  have "led' = led\<lparr>user_scores := (user_scores led)(a \<mapsto> word_of_int (compute_score p r f w b)),
                     score_commitments := (score_commitments led)(a \<mapsto> c)\<rparr>"
    by simp
  then show ?thesis by simp
qed

theorem store_frame_witness:
  "computeAndStoreScore scalar_prime (replicate 50 1) (replicate 4 1) (replicate 54 1) 0 ''alice'' 50
     ((initial_ledger 3)\<lparr>user_scores := [''bob'' \<mapsto> 7], score_commitments := [''bob'' \<mapsto> 150]\<rparr>)
   = (Inr (), (initial_ledger 3)\<lparr>user_scores := [''bob'' \<mapsto> 7, ''alice'' \<mapsto> 54],
                                 score_commitments := [''bob'' \<mapsto> 150, ''alice'' \<mapsto> 50]\<rparr>)"
proof -
  have ok: "fst (computeAndStoreScore scalar_prime (replicate 50 1) (replicate 4 1) (replicate 54 1)
     0 ''alice'' 50
     ((initial_ledger 3)\<lparr>user_scores := [''bob'' \<mapsto> 7], score_commitments := [''bob'' \<mapsto> 150]\<rparr>))
     = Inr ()"
    by code_simp
  have v: "compute_score scalar_prime (replicate 50 1) (replicate 4 1) (replicate 54 1) 0 = 54"
    by code_simp
  obtain led' where r: "computeAndStoreScore scalar_prime (replicate 50 1) (replicate 4 1)
     (replicate 54 1) 0 ''alice'' 50
     ((initial_ledger 3)\<lparr>user_scores := [''bob'' \<mapsto> 7], score_commitments := [''bob'' \<mapsto> 150]\<rparr>)
     = (Inr (), led')"
    using ok by (metis prod.collapse)
  from store_frame [OF r] have "led' = (initial_ledger 3)\<lparr>user_scores := [''bob'' \<mapsto> 7, ''alice'' \<mapsto> 54],
                                 score_commitments := [''bob'' \<mapsto> 150, ''alice'' \<mapsto> 50]\<rparr>"
    by (simp add: v)
  with r show ?thesis by simp
qed

section \<open>Permutations of the responses\<close>

text \<open>
  Claim C10, as stated, fails. \<^verbatim>\<open>calculateCommitment\<close> adds binary64 Numbers from left to
  right, and that sum depends on the order: the fifty responses \<open>2^53, 1, 1, 0, ..., 0\<close> sum
  to \<open>2^53\<close> (each \<open>2^53 + 1\<close> rounds back to \<open>2^53\<close>), while their reordering
  \<open>1, 1, 2^53, 0, ..., 0\<close> sums to \<open>2^53 + 2\<close>.
\<close>

theorem reordered_sum_differs_counterexample:
  "mset (1 # 1 # 2 ^ 53 # replicate 47 (0::int)) = mset (2 ^ 53 # 1 # 1 # replicate 47 0)
   \<and> calculateCommitment (2 ^ 53 # 1 # 1 # replicate 47 0) = Some (2 ^ 53)
   \<and> calculateCommitment (1 # 1 # 2 ^ 53 # replicate 47 0) = Some (2 ^ 53 + 2)
   \<and> calculateCommitment (1 # 1 # 2 ^ 53 # replicate 47 0)
       \<noteq> calculateCommitment (2 ^ 53 # 1 # 1 # replicate 47 0)"
proof -
  have m: "mset (1 # 1 # 2 ^ 53 # replicate 47 (0::int)) = mset (2 ^ 53 # 1 # 1 # replicate 47 0)"
    by simp
  have a: "calculateCommitment (2 ^ 53 # 1 # 1 # replicate 47 0) = Some (2 ^ 53)"
    by code_simp
  have b: "calculateCommitment (1 # 1 # 2 ^ 53 # replicate 47 0) = Some (2 ^ 53 + 2)"
    by code_simp
  from m a b show ?thesis by simp
qed

text \<open>
  Claim C10, amended. On vectors of fifty nonnegative integer responses whose sum is below
  \<open>2^53\<close> and below the field prime, \<^verbatim>\<open>calculateCommitment\<close> is the arithmetic sum of the
  entries and gives the same commitment for every reordering; the commitment check of
  \<^verbatim>\<open>computeAndStoreScore\<close> therefore accepts any permutation of the responses that were
  committed to.
\<close>

theorem commitment_permutation_invariant:
  assumes "mset r' = mset r" and "length r = 50" and "exactly_summable r" and "sum_list r < p"
  shows "calculateCommitment r' = calculateCommitment r
       \<and> calculateCommitment r = Some (sum_list r)
       \<and> verify_commitment p r' (sum_list r)
       \<and> fst (computeAndStoreScore p r' f w b a (sum_list r) led) \<noteq> Inl CommitmentMismatch"
proof -
  have "sum_mset (mset r') = sum_mset (mset r)"
    using assms(1) by simp
  then have eq: "sum_list r' = sum_list r"
    by (simp only: sum_mset_sum_list)
  have len: "length r' = 50"
    using assms(1,2) mset_eq_length by fastforce
  have "set r' = set r"
    using assms(1) by (rule mset_eq_setD)
  with assms(3) eq have sm: "exactly_summable r'"
    by (simp add: exactly_summable_def)
  have "\<forall>x\<in>set r. 0 \<le> x"
    using assms(3) by (simp add: exactly_summable_def)
  then have S: "0 \<le> sum_list r" "sum_list r < p"
    using assms(4) by (simp_all add: sum_list_nonneg)
  have c': "calculateCommitment r' = Some (sum_list r)"
    using calculateCommitment_exact [OF sm] eq by simp
  have c: "calculateCommitment r = Some (sum_list r)"
    by (rule calculateCommitment_exact [OF assms(3)])
  have acc: "verify_commitment p r' (sum_list r)"
    using S eq by (simp add: verify_commitment_def calculated_commitment_sum_list [OF len])
  then have "fst (computeAndStoreScore p r' f w b a (sum_list r) led) \<noteq> Inl CommitmentMismatch"
    unfolding computeAndStoreScore_def Let_def by simp
  with c c' acc show ?thesis by simp
qed

theorem commitment_permutation_invariant_witness:
  "mset (replicate 49 1 @ [2]) = mset (2 # replicate 49 (1::int))
   \<and> length (2 # replicate 49 (1::int)) = 50
   \<and> exactly_summable (2 # replicate 49 1)
   \<and> sum_list (2 # replicate 49 1) < scalar_prime
   \<and> calculateCommitment (replicate 49 1 @ [2]) = calculateCommitment (2 # replicate 49 1)
   \<and> calculateCommitment (2 # replicate 49 1) = Some 51
   \<and> verify_commitment scalar_prime (replicate 49 1 @ [2]) 51"
proof -
  have m: "mset (replicate 49 1 @ [2]) = mset (2 # replicate 49 (1::int))"
    by simp
  have l: "length (2 # replicate 49 (1::int)) = 50"
    by simp
  have s: "sum_list (2 # replicate 49 (1::int)) = 51"
    by (simp add: sum_list_replicate)
  have x: "exactly_summable (2 # replicate 49 1)"
    by (simp add: exactly_summable_def sum_list_replicate)
  have p: "sum_list (2 # replicate 49 1) < scalar_prime"
    by (simp add: sum_list_replicate)
  from commitment_permutation_invariant [OF m l x p, unfolded s] m l x p show ?thesis
    by blast
qed

end
